theory Spec2Isabelle
  imports Main "HOL-Library.Char_ord" "HOL-Library.List_Lexorder" "HOL-Library.Product_Lexorder"
begin

section \<open>PawPal appointment routes: data model\<close>

text \<open>
  The appointment router of the Cloud Functions backend (create, list, change status,
  reschedule, availability) over a Firestore database. Instants are JavaScript epoch
  milliseconds (\<open>Date.getTime()\<close>), modelled as unbounded integers; statuses, roles and
  error codes are the bare strings the source compares.
\<close>

text \<open>The value of \<open>new Date(x)\<close>: an instant, or Invalid Date (time value NaN).\<close>

datatype jsDate = InvalidDate | Date int

text \<open>The value of \<open>parseInt(x)\<close>.\<close>

datatype jsInt = NaN | Num int

text \<open>
  A document of the \<open>appointments\<close> collection. Fields that the handlers add only later
  (\<open>statusReason\<close>, \<open>confirmedAt\<close>, ...) are \<open>None\<close> while absent. \<open>apptNotes\<close> is the
  source's \<open>notes\<close>, stored as null or a string. \<open>rescheduleReason\<close> is absent
  (\<open>None\<close>), null (\<open>Some None\<close>) or a string.
\<close>

record appointment =
  ownerId :: string
  petId :: string
  veterinarianId :: string
  dateTime :: int
  duration :: int
  type :: string
  reason :: string
  apptNotes :: "string option"
  status :: string
  createdAt :: int
  updatedAt :: int
  statusReason :: "string option"
  confirmedAt :: "int option"
  completedAt :: "int option"
  cancelledAt :: "int option"
  rescheduledAt :: "int option"
  rescheduleReason :: "string option option"

text \<open>The fields of a \<open>pets\<close> and of a \<open>users\<close> document that the router reads.\<close>

record pet =
  petOwnerId :: string
  petName :: string

record user =
  role :: string
  vetApplicationStatus :: string
  firstName :: string
  lastName :: string

text \<open>A document of the \<open>notifications\<close> collection.\<close>

record notification =
  userId :: string
  notificationType :: string
  title :: string
  message :: string
  dataAppointmentId :: string

text \<open>
  The database: each collection is a list of (document id, data) pairs in insertion
  order; \<open>map_of\<close> is \<open>doc(id).get()\<close>.
\<close>

record db =
  appointments :: "(string \<times> appointment) list"
  pets :: "(string \<times> pet) list"
  users :: "(string \<times> user) list"
  notifications :: "notification list"

text \<open>
  What a request sees of the outside world: \<open>now\<close> is \<open>new Date()\<close>, \<open>serverTime\<close> the
  value Firestore writes for \<open>FieldValue.serverTimestamp()\<close>, \<open>tzOffset\<close> the server's
  fixed offset from UTC in milliseconds (local time = UTC + offset, no daylight saving),
  \<open>newId\<close> the id \<open>add()\<close> generates. The three flags say which Firestore calls of the
  request reject: reads (\<open>get\<close>), writes to \<open>appointments\<close> (\<open>add\<close>, \<open>update\<close>), and
  \<open>notifications.add\<close>.
\<close>

record env =
  now :: int
  serverTime :: int
  tzOffset :: int
  newId :: string
  readFails :: bool
  writeFails :: bool
  notifyFails :: bool

text \<open>
  Responses: \<open>res.status(n).json({error: {code}})\<close>, the 201 of create with the
  appointment it echoes, the 200 of a status change or reschedule with its message, the
  200 of the listing with \<open>hasMore\<close>, the 200 of availability with its slots.
\<close>

datatype response =
    ErrorResp nat string
  | CreatedResp string appointment
  | SuccessResp string
  | ListResp "(string \<times> appointment \<times> pet option \<times> user option) list" bool
  | SlotsResp "int list"

text \<open>The status code of a response (\<open>res.status(n)\<close>).\<close>

fun httpStatus :: "response \<Rightarrow> nat" where
  "httpStatus (ErrorResp n c) = n"
| "httpStatus (CreatedResp i a) = 201"
| "httpStatus (SuccessResp m) = 200"
| "httpStatus (ListResp xs h) = 200"
| "httpStatus (SlotsResp xs) = 200"

section \<open>Helpers of the JavaScript runtime\<close>

text \<open>\<open>!x\<close> on an optional string of the body: undefined, null and the empty string.\<close>

fun truthy :: "string option \<Rightarrow> string option" where
  "truthy None = None"
| "truthy (Some s) = (if s = [] then None else Some s)"

definition isSpace :: "char \<Rightarrow> bool" where
  "isSpace c = (c \<in> set [CHR '' '', CHR 0x09, CHR 0x0A, CHR 0x0B, CHR 0x0C, CHR 0x0D])"

text \<open>\<open>String.prototype.trim\<close> on ASCII white space.\<close>

definition trim :: "string \<Rightarrow> string" where
  "trim s = rev (dropWhile isSpace (rev (dropWhile isSpace s)))"

text \<open>\<open>x ? x.trim() : null\<close>.\<close>

definition trimOrNull :: "string option \<Rightarrow> string option" where
  "trimOrNull x = map_option trim (truthy x)"

text \<open>
  \<open>d.setHours(h, m, 0, 0)\<close> in the server's time zone: the local midnight of the day of
  \<open>t\<close>, plus the time of day.
\<close>

definition localMidnight :: "int \<Rightarrow> int \<Rightarrow> int" where
  "localMidnight tz t = t - ((t + tz) mod 86400000)"

definition setHours :: "int \<Rightarrow> int \<Rightarrow> int \<Rightarrow> int \<Rightarrow> int \<Rightarrow> int \<Rightarrow> int" where
  "setHours tz t h m s ms = localMidnight tz t + h * 3600000 + m * 60000 + s * 1000 + ms"

section \<open>Firestore operations\<close>

text \<open>\<open>ref.update(fields)\<close>: the document with that id gets the fields, the others stay.\<close>

definition updateDoc :: "string \<Rightarrow> ('a \<Rightarrow> 'a) \<Rightarrow> (string \<times> 'a) list \<Rightarrow> (string \<times> 'a) list" where
  "updateDoc docId f docs = map (\<lambda>(i, a). if i = docId then (i, f a) else (i, a)) docs"

text \<open>
  The conflict query of create and reschedule:
  \<open>where veterinarianId == vet, status in [confirmed, pending],
  dateTime >= startTime, dateTime < endTime\<close>.
\<close>

definition conflictQuery ::
  "(string \<times> appointment) list \<Rightarrow> string \<Rightarrow> int \<Rightarrow> int \<Rightarrow> (string \<times> appointment) list" where
  "conflictQuery docs vet startTime endTime =
     filter (\<lambda>(i, a). veterinarianId a = vet \<and> status a \<in> set [''confirmed'', ''pending'']
                      \<and> startTime \<le> dateTime a \<and> dateTime a < endTime) docs"

section \<open>POST /: create an appointment\<close>

definition newAppointmentNotification :: "string \<Rightarrow> string \<Rightarrow> pet \<Rightarrow> notification" where
  "newAppointmentNotification vet docId p =
     \<lparr>userId = vet, notificationType = ''new_appointment'',
      title = ''New Appointment Request'',
      message = ''New appointment request for '' @ petName p,
      dataAppointmentId = docId\<rparr>"

text \<open>
  The handler after the required fields are known to be present. \<open>dur\<close> is the
  destructured \<open>duration\<close> (30 when the body has none). An Invalid Date passes the
  comparison with \<open>new Date()\<close> (NaN compares false) and makes \<open>Timestamp.fromDate\<close>
  throw, which the handler's catch turns into the 500.
\<close>

definition createChecked ::
  "env \<Rightarrow> string \<Rightarrow> string \<Rightarrow> string \<Rightarrow> jsDate \<Rightarrow> string \<Rightarrow> string \<Rightarrow> string option \<Rightarrow> int
     \<Rightarrow> db \<Rightarrow> response \<times> db" where
  "createChecked e uid pid vet dt ty rsn nts dur d =
    (if readFails e then (ErrorResp 500 ''CREATE_APPOINTMENT_FAILED'', d)
     else case map_of (pets d) pid of
       None \<Rightarrow> (ErrorResp 403 ''PET_ACCESS_DENIED'', d)
     | Some petDoc \<Rightarrow>
        if petOwnerId petDoc \<noteq> uid then (ErrorResp 403 ''PET_ACCESS_DENIED'', d)
        else case map_of (users d) vet of
          None \<Rightarrow> (ErrorResp 400 ''VET_NOT_AVAILABLE'', d)
        | Some vetDoc \<Rightarrow>
           if role vetDoc \<noteq> ''veterinarian'' \<or> vetApplicationStatus vetDoc \<noteq> ''approved''
           then (ErrorResp 400 ''VET_NOT_AVAILABLE'', d)
           else case dt of
             InvalidDate \<Rightarrow> (ErrorResp 500 ''CREATE_APPOINTMENT_FAILED'', d)
           | Date appointmentDateTime \<Rightarrow>
              if appointmentDateTime \<le> now e then (ErrorResp 400 ''INVALID_DATE'', d)
              else
                let startTime = appointmentDateTime;
                    endTime = appointmentDateTime + dur * 60000
                in if conflictQuery (appointments d) vet startTime endTime \<noteq> []
                   then (ErrorResp 409 ''TIME_CONFLICT'', d)
                   else
                     let appointmentData =
                           \<lparr>ownerId = uid, petId = pid, veterinarianId = vet,
                            dateTime = startTime, duration = dur, type = ty,
                            reason = trim rsn, apptNotes = trimOrNull nts,
                            status = ''pending'',
                            createdAt = serverTime e, updatedAt = serverTime e,
                            statusReason = None, confirmedAt = None, completedAt = None,
                            cancelledAt = None, rescheduledAt = None,
                            rescheduleReason = None\<rparr>
                     in if writeFails e then (ErrorResp 500 ''CREATE_APPOINTMENT_FAILED'', d)
                        else
                          let d1 = d\<lparr>appointments := appointments d @ [(newId e, appointmentData)]\<rparr>
                          in if notifyFails e
                             then (ErrorResp 500 ''CREATE_APPOINTMENT_FAILED'', d1)
                             else (CreatedResp (newId e)
                                     (appointmentData\<lparr>createdAt := now e, updatedAt := now e\<rparr>),
                                   d1\<lparr>notifications := notifications d1 @
                                         [newAppointmentNotification vet (newId e) petDoc]\<rparr>))"

text \<open>
  \<open>router.post('/')\<close>. The body's \<open>dateTime\<close> is \<open>None\<close> when falsy, otherwise the value of
  \<open>new Date(dateTime)\<close>; \<open>duration\<close> is \<open>None\<close> when the body has none.
\<close>

definition create ::
  "env \<Rightarrow> string \<Rightarrow> string option \<Rightarrow> string option \<Rightarrow> jsDate option \<Rightarrow> string option
     \<Rightarrow> string option \<Rightarrow> string option \<Rightarrow> int option \<Rightarrow> db \<Rightarrow> response \<times> db" where
  "create e uid petId' veterinarianId' dateTime' type' reason' notes' duration' d =
    (let dur = (case duration' of None \<Rightarrow> 30 | Some n \<Rightarrow> n)
     in case (truthy petId', truthy veterinarianId', dateTime', truthy type', truthy reason') of
          (Some pid, Some vet, Some dt, Some ty, Some rsn) \<Rightarrow>
             createChecked e uid pid vet dt ty rsn notes' dur d
        | _ \<Rightarrow> (ErrorResp 400 ''MISSING_FIELDS'', d))"

section \<open>GET /: the caller's appointments\<close>

text \<open>
  Firestore's \<open>orderBy('dateTime')\<close>: by \<open>dateTime\<close>, then by document id; \<open>desc\<close> is the
  reverse order.
\<close>

definition orderByDateTime :: "bool \<Rightarrow> (string \<times> appointment) list \<Rightarrow> (string \<times> appointment) list" where
  "orderByDateTime asc docs =
     (let sorted = sort_key (\<lambda>(i, a). (dateTime a, i)) docs
      in if asc then sorted else rev sorted)"

text \<open>
  The documents the listing query matches, in its order, before \<open>limit\<close> and \<open>offset\<close>:
  the caller's appointments (as veterinarian when the caller's user document has that
  role, as owner otherwise), of the given status unless it is absent, empty or
  \<open>all\<close>, from now on and ascending when \<open>upcoming\<close> is the string \<open>true\<close>.
\<close>

definition listQuery ::
  "env \<Rightarrow> string \<Rightarrow> string option \<Rightarrow> string option \<Rightarrow> db \<Rightarrow> (string \<times> appointment) list" where
  "listQuery e uid status' upcoming d =
    (let userRole = map_option role (map_of (users d) uid);
         q1 = (if userRole = Some ''veterinarian''
               then filter (\<lambda>(i, a). veterinarianId a = uid) (appointments d)
               else filter (\<lambda>(i, a). ownerId a = uid) (appointments d));
         q2 = (case truthy status' of
                 None \<Rightarrow> q1
               | Some st \<Rightarrow> if st \<noteq> ''all'' then filter (\<lambda>(i, a). status a = st) q1 else q1)
     in if upcoming = Some ''true''
        then orderByDateTime True (filter (\<lambda>(i, a). now e \<le> dateTime a) q2)
        else orderByDateTime False q2)"

text \<open>
  \<open>router.get('/')\<close>. \<open>limit'\<close> and \<open>offset'\<close> are \<open>parseInt\<close> of the query parameters
  (\<open>None\<close> when the parameter is absent: 20 and 0). Firestore rejects a NaN or negative
  limit or offset, which the handler's catch turns into the 500; otherwise the snapshot
  is the first \<open>limit\<close> documents after skipping \<open>offset\<close>. Each appointment is returned
  with its pet document and its veterinarian's user document (of which the source keeps
  the id, names, specialization and email).
\<close>

text \<open>\<open>parseInt\<close> of a query parameter that has a default.\<close>

definition queryInt :: "int \<Rightarrow> jsInt option \<Rightarrow> jsInt" where
  "queryInt dflt p = (case p of None \<Rightarrow> Num dflt | Some x \<Rightarrow> x)"

definition getAppointments ::
  "env \<Rightarrow> string \<Rightarrow> string option \<Rightarrow> jsInt option \<Rightarrow> jsInt option \<Rightarrow> string option \<Rightarrow> db
     \<Rightarrow> response" where
  "getAppointments e uid status' limit' offset' upcoming d =
    (if readFails e then ErrorResp 500 ''GET_APPOINTMENTS_FAILED''
     else case (queryInt 20 limit', queryInt 0 offset') of
       (Num l, Num k) \<Rightarrow>
         if l < 0 \<or> k < 0 then ErrorResp 500 ''GET_APPOINTMENTS_FAILED''
         else
           let snapshot = take (nat l) (drop (nat k) (listQuery e uid status' upcoming d));
               enrichedAppointments =
                 map (\<lambda>(i, a). (i, a, map_of (pets d) (petId a), map_of (users d) (veterinarianId a)))
                     snapshot
           in ListResp enrichedAppointments (int (length snapshot) = l)
     | _ \<Rightarrow> ErrorResp 500 ''GET_APPOINTMENTS_FAILED'')"

section \<open>PATCH /:appointmentId/status\<close>

definition validStatuses :: "string list" where
  "validStatuses = [''confirmed'', ''cancelled'', ''completed'', ''no_show'']"

definition notificationMessage :: "string \<Rightarrow> string" where
  "notificationMessage st =
     (if st = ''confirmed'' then ''Your appointment has been confirmed''
      else if st = ''cancelled'' then ''Your appointment has been cancelled''
      else if st = ''completed'' then ''Your appointment has been completed''
      else ''You were marked as no-show for your appointment'')"

text \<open>\<open>updateData\<close> of the status handler, as the change it makes to the document.\<close>

definition statusUpdate :: "env \<Rightarrow> string \<Rightarrow> string option \<Rightarrow> appointment \<Rightarrow> appointment" where
  "statusUpdate e st reason' a =
    (let a1 = a\<lparr>status := st, updatedAt := serverTime e\<rparr>;
         a2 = (case truthy reason' of None \<Rightarrow> a1 | Some r \<Rightarrow> a1\<lparr>statusReason := Some (trim r)\<rparr>)
     in if st = ''confirmed'' then a2\<lparr>confirmedAt := Some (serverTime e)\<rparr>
        else if st = ''completed'' then a2\<lparr>completedAt := Some (serverTime e)\<rparr>
        else if st = ''cancelled'' then a2\<lparr>cancelledAt := Some (serverTime e)\<rparr>
        else a2)"

text \<open>The party to notify: the owner when the caller is the veterinarian, else the veterinarian.\<close>

definition notificationUserId :: "string \<Rightarrow> appointment \<Rightarrow> string" where
  "notificationUserId uid a = (if veterinarianId a = uid then ownerId a else veterinarianId a)"

text \<open>
  \<open>router.patch('/:appointmentId/status')\<close>. The body's \<open>status\<close> is \<open>None\<close> when it is not
  a string. The notification is added after the update, inside the same \<open>try\<close>.
\<close>

definition patchStatus ::
  "env \<Rightarrow> string \<Rightarrow> string \<Rightarrow> string option \<Rightarrow> string option \<Rightarrow> db \<Rightarrow> response \<times> db" where
  "patchStatus e uid appointmentId status' reason' d =
    (case status' of
       None \<Rightarrow> (ErrorResp 400 ''INVALID_STATUS'', d)
     | Some st \<Rightarrow>
        if st \<notin> set validStatuses then (ErrorResp 400 ''INVALID_STATUS'', d)
        else if readFails e then (ErrorResp 500 ''UPDATE_STATUS_FAILED'', d)
        else case map_of (appointments d) appointmentId of
          None \<Rightarrow> (ErrorResp 404 ''APPOINTMENT_NOT_FOUND'', d)
        | Some appointmentData \<Rightarrow>
           if (st = ''confirmed'' \<or> st = ''completed'' \<or> st = ''no_show'')
              \<and> veterinarianId appointmentData \<noteq> uid
           then (ErrorResp 403 ''VET_ONLY_ACTION'', d)
           else if st = ''cancelled'' \<and> ownerId appointmentData \<noteq> uid
                   \<and> veterinarianId appointmentData \<noteq> uid
           then (ErrorResp 403 ''ACCESS_DENIED'', d)
           else if writeFails e then (ErrorResp 500 ''UPDATE_STATUS_FAILED'', d)
           else
             let d1 = d\<lparr>appointments :=
                          updateDoc appointmentId (statusUpdate e st reason') (appointments d)\<rparr>
             in if notifyFails e then (ErrorResp 500 ''UPDATE_STATUS_FAILED'', d1)
                else (SuccessResp ''Appointment status updated successfully'',
                      d1\<lparr>notifications := notifications d1 @
                            [\<lparr>userId = notificationUserId uid appointmentData,
                              notificationType = ''appointment_status_change'',
                              title = ''Appointment Status Update'',
                              message = notificationMessage st,
                              dataAppointmentId = appointmentId\<rparr>]\<rparr>))"

section \<open>PATCH /:appointmentId/reschedule\<close>

text \<open>The fields the reschedule handler passes to \<open>update\<close>.\<close>

definition rescheduleUpdate :: "env \<Rightarrow> int \<Rightarrow> string option \<Rightarrow> appointment \<Rightarrow> appointment" where
  "rescheduleUpdate e startTime reason' a =
     a\<lparr>dateTime := startTime, status := ''pending'', rescheduledAt := Some (serverTime e),
       rescheduleReason := Some (trimOrNull reason'), updatedAt := serverTime e\<rparr>"

text \<open>\<open>conflictingAppointments.docs.some(doc => doc.id !== appointmentId)\<close>.\<close>

definition hasConflict :: "string \<Rightarrow> (string \<times> appointment) list \<Rightarrow> bool" where
  "hasConflict appointmentId docs = list_ex (\<lambda>(i, a). i \<noteq> appointmentId) docs"

text \<open>
  \<open>router.patch('/:appointmentId/reschedule')\<close>. \<open>newDateTime\<close> is \<open>None\<close> when the body's
  value is falsy, otherwise the value of \<open>new Date(newDateTime)\<close>. The text of the
  notification (the new time in the server's locale) is left out of the model.
\<close>

definition reschedule ::
  "env \<Rightarrow> string \<Rightarrow> string \<Rightarrow> jsDate option \<Rightarrow> string option \<Rightarrow> db \<Rightarrow> response \<times> db" where
  "reschedule e uid appointmentId newDateTime reason' d =
    (case newDateTime of
       None \<Rightarrow> (ErrorResp 400 ''MISSING_DATETIME'', d)
     | Some dt \<Rightarrow>
        if readFails e then (ErrorResp 500 ''RESCHEDULE_FAILED'', d)
        else case map_of (appointments d) appointmentId of
          None \<Rightarrow> (ErrorResp 404 ''APPOINTMENT_NOT_FOUND'', d)
        | Some appointmentData \<Rightarrow>
           if ownerId appointmentData \<noteq> uid \<and> veterinarianId appointmentData \<noteq> uid
           then (ErrorResp 403 ''ACCESS_DENIED'', d)
           else case dt of
             InvalidDate \<Rightarrow> (ErrorResp 500 ''RESCHEDULE_FAILED'', d)
           | Date newAppointmentDateTime \<Rightarrow>
              if newAppointmentDateTime \<le> now e then (ErrorResp 400 ''INVALID_DATE'', d)
              else
                let startTime = newAppointmentDateTime;
                    endTime = newAppointmentDateTime + duration appointmentData * 60000;
                    conflictingAppointments =
                      conflictQuery (appointments d) (veterinarianId appointmentData)
                        startTime endTime
                in if hasConflict appointmentId conflictingAppointments
                   then (ErrorResp 409 ''TIME_CONFLICT'', d)
                   else if writeFails e then (ErrorResp 500 ''RESCHEDULE_FAILED'', d)
                   else
                     let d1 = d\<lparr>appointments :=
                                  updateDoc appointmentId (rescheduleUpdate e startTime reason')
                                    (appointments d)\<rparr>
                     in if notifyFails e then (ErrorResp 500 ''RESCHEDULE_FAILED'', d1)
                        else (SuccessResp ''Appointment rescheduled successfully'',
                              d1\<lparr>notifications := notifications d1 @
                                    [\<lparr>userId = notificationUserId uid appointmentData,
                                      notificationType = ''appointment_rescheduled'',
                                      title = ''Appointment Rescheduled'',
                                      message = ''Your appointment has been rescheduled'',
                                      dataAppointmentId = appointmentId\<rparr>]\<rparr>))"

section \<open>GET /availability/:veterinarianId\<close>

text \<open>An entry of \<open>bookedSlots\<close>: \<open>{start, duration}\<close>.\<close>

type_synonym bookedSlot = "int \<times> int"

text \<open>
  The day's bookings of the veterinarian: status confirmed or pending, \<open>dateTime\<close> from
  \<open>dayStart\<close> to \<open>dayEnd\<close> inclusive.
\<close>

definition bookedSlots :: "(string \<times> appointment) list \<Rightarrow> string \<Rightarrow> int \<Rightarrow> int \<Rightarrow> bookedSlot list" where
  "bookedSlots docs vet dayStart dayEnd =
     map (\<lambda>(i, a). (dateTime a, duration a))
       (filter (\<lambda>(i, a). veterinarianId a = vet \<and> status a \<in> set [''confirmed'', ''pending'']
                        \<and> dayStart \<le> dateTime a \<and> dateTime a \<le> dayEnd) docs)"

text \<open>
  \<open>bookedSlots.some(booked => slotTime >= bookedStart && slotTime < bookedEnd)\<close> with
  \<open>bookedEnd = bookedStart + duration * 60000\<close>.
\<close>

definition isBooked :: "bookedSlot list \<Rightarrow> int \<Rightarrow> bool" where
  "isBooked booked slotTime =
     list_ex (\<lambda>(bookedStart, dur). bookedStart \<le> slotTime \<and> slotTime < bookedStart + dur * 60000)
       booked"

text \<open>
  The slot loop, from \<open>time\<close> on: \<open>for (...; time < workEnd; time += 30 minutes)\<close>, each
  slot pushed unless it is past or booked.
\<close>

function availableSlots :: "int \<Rightarrow> bookedSlot list \<Rightarrow> int \<Rightarrow> int \<Rightarrow> int list" where
  "availableSlots nw booked workEnd time =
     (if time < workEnd
      then (if time \<le> nw then availableSlots nw booked workEnd (time + 30 * 60000)
            else if isBooked booked time then availableSlots nw booked workEnd (time + 30 * 60000)
            else time # availableSlots nw booked workEnd (time + 30 * 60000))
      else [])"
  by pat_completeness auto
termination
  by (relation "measure (\<lambda>(nw, booked, workEnd, time). nat (workEnd - time))") auto

text \<open>
  \<open>router.get('/availability/:veterinarianId')\<close>. \<open>date\<close> is \<open>None\<close> when the query has no
  date, otherwise the value of \<open>new Date(date)\<close>.
\<close>

definition availability :: "env \<Rightarrow> string \<Rightarrow> jsDate option \<Rightarrow> db \<Rightarrow> response" where
  "availability e vet date d =
    (case date of
       None \<Rightarrow> ErrorResp 400 ''MISSING_DATE''
     | Some InvalidDate \<Rightarrow> ErrorResp 400 ''INVALID_DATE''
     | Some (Date requestedDate) \<Rightarrow>
        if requestedDate < setHours (tzOffset e) (now e) 0 0 0 0 then ErrorResp 400 ''INVALID_DATE''
        else if readFails e then ErrorResp 500 ''GET_AVAILABILITY_FAILED''
        else case map_of (users d) vet of
          None \<Rightarrow> ErrorResp 404 ''VET_NOT_FOUND''
        | Some vetDoc \<Rightarrow>
           if role vetDoc \<noteq> ''veterinarian'' then ErrorResp 404 ''VET_NOT_FOUND''
           else
             let dayStart = setHours (tzOffset e) requestedDate 0 0 0 0;
                 dayEnd = setHours (tzOffset e) requestedDate 23 59 59 999;
                 booked = bookedSlots (appointments d) vet dayStart dayEnd;
                 workStart = setHours (tzOffset e) requestedDate 9 0 0 0;
                 workEnd = setHours (tzOffset e) requestedDate 17 0 0 0
             in SlotsResp (availableSlots (now e) booked workEnd workStart))"

section \<open>A clinic on 2025-06-01\<close>

text \<open>
  Concrete data for the scenarios: the server runs in UTC and it is 2025-05-31T14:00Z;
  \<open>1748736000000\<close> is 2025-06-01T00:00Z, so 09:00Z is \<open>1748768400000\<close>, 10:00Z is
  \<open>1748772000000\<close>, and a quarter of an hour is \<open>900000\<close>.
\<close>

definition clinicEnv :: env where
  "clinicEnv = \<lparr>now = 1748700000000, serverTime = 1748700000250, tzOffset = 0, newId = ''a2'',
                readFails = False, writeFails = False, notifyFails = False\<rparr>"

text \<open>A 30-minute booking of owner1's pet with veterinarian V, at a start and in a status.\<close>

definition bookingAt :: "int \<Rightarrow> string \<Rightarrow> appointment" where
  "bookingAt t st =
     \<lparr>ownerId = ''owner1'', petId = ''pet1'', veterinarianId = ''vetV'',
      dateTime = t, duration = 30, type = ''checkup'', reason = ''limping'',
      apptNotes = None, status = st, createdAt = 1748600000000, updatedAt = 1748600000000,
      statusReason = None, confirmedAt = None, completedAt = None,
      cancelledAt = None, rescheduledAt = None, rescheduleReason = None\<rparr>"

definition clinicDb :: "(string \<times> appointment) list \<Rightarrow> db" where
  "clinicDb docs =
     \<lparr>appointments = docs,
      pets = [(''pet1'', \<lparr>petOwnerId = ''owner1'', petName = ''Rex''\<rparr>),
              (''pet2'', \<lparr>petOwnerId = ''owner2'', petName = ''Tom''\<rparr>)],
      users = [(''vetV'', \<lparr>role = ''veterinarian'', vetApplicationStatus = ''approved'',
                           firstName = ''Vera'', lastName = ''Vet''\<rparr>)],
      notifications = []\<rparr>"

text \<open>Owner2's request for a check-up of pet2 with V at an instant, for a duration.\<close>

definition requestAt :: "int \<Rightarrow> int option \<Rightarrow> db \<Rightarrow> response \<times> db" where
  "requestAt t dur d =
     create clinicEnv ''owner2'' (Some ''pet2'') (Some ''vetV'') (Some (Date t))
       (Some ''checkup'') (Some ''cough'') None dur d"

text \<open>Id, start, duration and status of each stored appointment.\<close>

definition bookings :: "db \<Rightarrow> (string \<times> int \<times> int \<times> string) list" where
  "bookings d = map (\<lambda>(i, a). (i, dateTime a, duration a, status a)) (appointments d)"

section \<open>Basic facts\<close>

lemmas scenario_defs = clinicEnv_def bookingAt_def clinicDb_def requestAt_def bookings_def

lemmas create_defs = create_def createChecked_def conflictQuery_def trim_def trimOrNull_def
  isSpace_def newAppointmentNotification_def

lemmas availability_defs = availability_def setHours_def localMidnight_def bookedSlots_def
  isBooked_def

lemma map_of_updateDoc:
  "map_of (updateDoc docId f docs) j =
     (if j = docId then map_option f (map_of docs docId) else map_of docs j)"
  by (induction docs) (auto simp: updateDoc_def)

section \<open>Conflict detection on create\<close>

text \<open>
  Claim C1. A create or reschedule request for veterinarian V is rejected with 409
  TIME_CONFLICT exactly when a pending or confirmed booking of V overlaps the candidate
  interval (candidate.start < existing.end and existing.start < candidate.end); with a
  confirmed 30-minute booking at 2025-06-01T10:00Z a 30-minute request at 10:15Z is
  rejected and one at 10:30Z succeeds.

  The code does not do this. Its query only finds bookings that start inside the
  candidate interval and never reads the stored duration of a booking. At the claim's
  own scenario, the request at 10:15Z is answered 201 and stored next to the 10:00Z
  booking, whose interval it overlaps by fifteen minutes.
\<close>

theorem create_accepts_overlap_with_earlier_booking:
  "httpStatus (fst (requestAt 1748772900000 (Some 30)
       (clinicDb [(''a1'', bookingAt 1748772000000 ''confirmed'')]))) = 201
   \<and> bookings (snd (requestAt 1748772900000 (Some 30)
       (clinicDb [(''a1'', bookingAt 1748772000000 ''confirmed'')])))
     = [(''a1'', 1748772000000, 30, ''confirmed''), (''a2'', 1748772900000, 30, ''pending'')]"
  by (simp add: scenario_defs create_defs)

text \<open>The rest of the scenario holds: the request at 10:30Z succeeds.\<close>

lemma create_scenario_half_hour_later:
  "httpStatus (fst (requestAt 1748773800000 (Some 30)
       (clinicDb [(''a1'', bookingAt 1748772000000 ''confirmed'')]))) = 201"
  by (simp add: scenario_defs create_defs)

text \<open>A request at 09:45Z, whose interval the 10:00Z booking starts in, is rejected.\<close>

lemma create_rejects_booking_starting_inside:
  "fst (requestAt 1748771100000 (Some 30)
       (clinicDb [(''a1'', bookingAt 1748772000000 ''confirmed'')]))
   = ErrorResp 409 ''TIME_CONFLICT''"
  by (simp add: scenario_defs create_defs)

text \<open>What the query decides: a conflict is a blocking booking that starts in the interval.\<close>

lemma conflictQuery_nonempty_iff:
  "conflictQuery docs vet startTime endTime \<noteq> [] \<longleftrightarrow>
     list_ex (\<lambda>(i, a). veterinarianId a = vet \<and> (status a = ''confirmed'' \<or> status a = ''pending'')
                         \<and> startTime \<le> dateTime a \<and> dateTime a < endTime) docs"
  by (induction docs) (auto simp: conflictQuery_def)

text \<open>Reschedule runs the same query: a move to 10:15Z next to the 10:00Z booking succeeds.\<close>

lemma reschedule_accepts_overlap_with_earlier_booking:
  "fst (reschedule clinicEnv ''owner1'' ''a3'' (Some (Date 1748772900000)) None
          (clinicDb [(''a1'', bookingAt 1748772000000 ''confirmed''),
                     (''a3'', bookingAt 1748779200000 ''pending'')]))
     = SuccessResp ''Appointment rescheduled successfully''
   \<and> bookings (snd (reschedule clinicEnv ''owner1'' ''a3'' (Some (Date 1748772900000)) None
          (clinicDb [(''a1'', bookingAt 1748772000000 ''confirmed''),
                     (''a3'', bookingAt 1748779200000 ''pending'')])))
     = [(''a1'', 1748772000000, 30, ''confirmed''), (''a3'', 1748772900000, 30, ''pending'')]"
  by (simp add: scenario_defs reschedule_def rescheduleUpdate_def updateDoc_def conflictQuery_def
      hasConflict_def trimOrNull_def)




section \<open>Status changes\<close>

text \<open>
  Claim C3. When the permission checks of a status change pass and the update is
  persisted, a failure of the follow-up notification does not turn the response into an
  error.

  The code does not do this. The notification is added inside the handler's \<open>try\<close>, so
  its failure reaches the \<open>catch\<close>: the veterinarian's confirmation below is stored, and
  the response is 500 UPDATE_STATUS_FAILED.
\<close>

theorem status_change_500_when_notification_fails:
  "patchStatus (clinicEnv\<lparr>notifyFails := True\<rparr>) ''vetV'' ''a1'' (Some ''confirmed'') None
       (clinicDb [(''a1'', bookingAt 1748772000000 ''pending'')])
   = (ErrorResp 500 ''UPDATE_STATUS_FAILED'',
      clinicDb [(''a1'', (bookingAt 1748772000000 ''confirmed'')
                   \<lparr>updatedAt := 1748700000250, confirmedAt := Some 1748700000250\<rparr>)])"
  by (simp add: scenario_defs patchStatus_def validStatuses_def statusUpdate_def updateDoc_def)

section \<open>Availability\<close>

text \<open>
  Claim C4. A slot start t is left out of the availability exactly when [t, t + 30 min)
  overlaps the interval [start, start + duration) of a pending or confirmed booking;
  with one 30-minute booking at 09:30 the result is the 15 slots 09:00, 10:00, 10:30,
  ..., 16:30.

  The code does not do this. It leaves a slot out only when the slot's start lies
  inside a booking, so a booking that starts inside the slot does not block it: with a
  pending 30-minute booking at 09:45Z the slot 09:30Z (\<open>1748770200000\<close>) is offered,
  although a create request for that slot is then rejected with 409 TIME_CONFLICT.
\<close>

theorem availability_offers_slot_overlapping_later_booking:
  "availability clinicEnv ''vetV'' (Some (Date 1748736000000))
       (clinicDb [(''a1'', bookingAt 1748771100000 ''pending'')])
   = SlotsResp
       [1748768400000, 1748770200000, 1748773800000, 1748775600000,
        1748777400000, 1748779200000, 1748781000000, 1748782800000,
        1748784600000, 1748786400000, 1748788200000, 1748790000000,
        1748791800000, 1748793600000, 1748795400000]
   \<and> fst (requestAt 1748770200000 (Some 30)
            (clinicDb [(''a1'', bookingAt 1748771100000 ''pending'')]))
     = ErrorResp 409 ''TIME_CONFLICT''"
  by (simp add: scenario_defs create_defs availability_defs)

text \<open>The scenario of the claim holds: a booking at 09:30Z leaves the 15 other slots.\<close>

lemma availability_scenario:
  "availability clinicEnv ''vetV'' (Some (Date 1748736000000))
       (clinicDb [(''a1'', bookingAt 1748770200000 ''confirmed'')])
   = SlotsResp
       [1748768400000, 1748772000000, 1748773800000, 1748775600000,
        1748777400000, 1748779200000, 1748781000000, 1748782800000,
        1748784600000, 1748786400000, 1748788200000, 1748790000000,
        1748791800000, 1748793600000, 1748795400000]"
  by (simp add: scenario_defs availability_defs)

section \<open>Appointments in a terminal status\<close>

lemma status_statusUpdate: "status (statusUpdate e st rsn a) = st"
  by (simp add: statusUpdate_def Let_def split: option.splits)

text \<open>
  Claim C2, as stated: every status change and every reschedule of an appointment
  whose status is cancelled, completed or no_show fails with an InvalidTransitionError
  and leaves the appointment unchanged.

  It fails on the code, which never reads the current status: the veterinarian
  confirms a cancelled appointment, and the owner reschedules a completed one, which
  becomes pending again.
\<close>

theorem terminal_status_change_accepted:
  "fst (patchStatus clinicEnv ''vetV'' ''a1'' (Some ''confirmed'') None
          (clinicDb [(''a1'', bookingAt 1748772000000 ''cancelled'')]))
     = SuccessResp ''Appointment status updated successfully''
   \<and> bookings (snd (patchStatus clinicEnv ''vetV'' ''a1'' (Some ''confirmed'') None
          (clinicDb [(''a1'', bookingAt 1748772000000 ''cancelled'')])))
     = [(''a1'', 1748772000000, 30, ''confirmed'')]
   \<and> fst (reschedule clinicEnv ''owner1'' ''a1'' (Some (Date 1748773800000)) None
          (clinicDb [(''a1'', bookingAt 1748772000000 ''completed'')]))
     = SuccessResp ''Appointment rescheduled successfully''
   \<and> bookings (snd (reschedule clinicEnv ''owner1'' ''a1'' (Some (Date 1748773800000)) None
          (clinicDb [(''a1'', bookingAt 1748772000000 ''completed'')])))
     = [(''a1'', 1748773800000, 30, ''pending'')]"
  by (simp add: scenario_defs patchStatus_def validStatuses_def statusUpdate_def updateDoc_def
      reschedule_def rescheduleUpdate_def conflictQuery_def hasConflict_def trimOrNull_def)

text \<open>
  Claim C2, amended: the handlers do not inspect the current status and there is no
  InvalidTransitionError. For an appointment whose status is cancelled, completed or
  no_show, when the store and the notification succeed: a change to a valid status by
  a permitted caller (the veterinarian, or the owner for a cancellation) is answered
  200 and stores the requested status, and a reschedule by that caller to a future
  time that the conflict check accepts is answered 200 and stores status pending.
\<close>

theorem terminal_status_is_overwritten:
  assumes "map_of (appointments d) aid = Some a"
    and "status a \<in> set [''cancelled'', ''completed'', ''no_show'']"
    and "\<not> readFails e" and "\<not> writeFails e" and "\<not> notifyFails e"
    and "st \<in> set validStatuses"
    and "veterinarianId a = uid \<or> (st = ''cancelled'' \<and> ownerId a = uid)"
    and "now e < t"
    and "\<not> hasConflict aid
           (conflictQuery (appointments d) (veterinarianId a) t (t + duration a * 60000))"
  shows "fst (patchStatus e uid aid (Some st) rsn d)
           = SuccessResp ''Appointment status updated successfully''
       \<and> map_option status (map_of (appointments (snd (patchStatus e uid aid (Some st) rsn d))) aid)
           = Some st
       \<and> fst (reschedule e uid aid (Some (Date t)) rsn d)
           = SuccessResp ''Appointment rescheduled successfully''
       \<and> map_option status (map_of (appointments (snd (reschedule e uid aid (Some (Date t)) rsn d))) aid)
           = Some ''pending''"
proof -
  have p: "patchStatus e uid aid (Some st) rsn d =
      (SuccessResp ''Appointment status updated successfully'',
       d\<lparr>appointments := updateDoc aid (statusUpdate e st rsn) (appointments d),
         notifications := notifications d @
           [\<lparr>userId = notificationUserId uid a,
             notificationType = ''appointment_status_change'',
             title = ''Appointment Status Update'',
             message = notificationMessage st,
             dataAppointmentId = aid\<rparr>]\<rparr>)"
    using assms(1,3-7) by (auto simp: patchStatus_def Let_def)
  have r: "reschedule e uid aid (Some (Date t)) rsn d =
      (SuccessResp ''Appointment rescheduled successfully'',
       d\<lparr>appointments := updateDoc aid (rescheduleUpdate e t rsn) (appointments d),
         notifications := notifications d @
           [\<lparr>userId = notificationUserId uid a,
             notificationType = ''appointment_rescheduled'',
             title = ''Appointment Rescheduled'',
             message = ''Your appointment has been rescheduled'',
             dataAppointmentId = aid\<rparr>]\<rparr>)"
    using assms(1,3-5,7-9) by (auto simp: reschedule_def Let_def)
  show ?thesis
    using assms(1)
    by (simp add: p r map_of_updateDoc status_statusUpdate rescheduleUpdate_def)
qed

theorem terminal_status_is_overwritten_witness:
  "fst (patchStatus clinicEnv ''owner1'' ''a1'' (Some ''cancelled'') (Some ''again'')
          (clinicDb [(''a1'', bookingAt 1748772000000 ''no_show'')]))
     = SuccessResp ''Appointment status updated successfully''
   \<and> map_option status (map_of (appointments
        (snd (patchStatus clinicEnv ''owner1'' ''a1'' (Some ''cancelled'') (Some ''again'')
          (clinicDb [(''a1'', bookingAt 1748772000000 ''no_show'')])))) ''a1'')
     = Some ''cancelled''
   \<and> fst (reschedule clinicEnv ''owner1'' ''a1'' (Some (Date 1748773800000)) (Some ''again'')
          (clinicDb [(''a1'', bookingAt 1748772000000 ''no_show'')]))
     = SuccessResp ''Appointment rescheduled successfully''
   \<and> map_option status (map_of (appointments
        (snd (reschedule clinicEnv ''owner1'' ''a1'' (Some (Date 1748773800000)) (Some ''again'')
          (clinicDb [(''a1'', bookingAt 1748772000000 ''no_show'')])))) ''a1'')
     = Some ''pending''"
  using terminal_status_is_overwritten [of "clinicDb [(''a1'', bookingAt 1748772000000 ''no_show'')]"
      "''a1''" "bookingAt 1748772000000 ''no_show''" clinicEnv "''cancelled''" "''owner1''"
      1748773800000 "Some ''again''"]
  by (simp add: scenario_defs validStatuses_def hasConflict_def conflictQuery_def)

section \<open>The duration of a created appointment\<close>

text \<open>
  Claim C5, as stated: every appointment that create persists has a positive duration
  (30 when none is supplied), and a request with a zero or negative duration is
  rejected.

  It fails on the code, which has no check of \<open>duration\<close>: requests with duration 0 and
  with duration -30 are answered 201 and stored with that duration.
\<close>

theorem create_stores_nonpositive_duration:
  "httpStatus (fst (requestAt 1748772000000 (Some 0) (clinicDb []))) = 201
   \<and> bookings (snd (requestAt 1748772000000 (Some 0) (clinicDb [])))
       = [(''a2'', 1748772000000, 0, ''pending'')]
   \<and> httpStatus (fst (requestAt 1748772000000 (Some (- 30)) (clinicDb []))) = 201
   \<and> bookings (snd (requestAt 1748772000000 (Some (- 30)) (clinicDb [])))
       = [(''a2'', 1748772000000, - 30, ''pending'')]"
  by (simp add: scenario_defs create_defs)

lemma createChecked_appointments:
  assumes "appointments (snd (createChecked e uid pid vet dt ty rsn nts dur d)) \<noteq> appointments d"
  shows "\<exists>a. appointments (snd (createChecked e uid pid vet dt ty rsn nts dur d))
               = appointments d @ [(newId e, a)] \<and> duration a = dur"
  using assms
  by (auto simp: createChecked_def Let_def split: option.splits if_splits jsDate.splits)

text \<open>
  Claim C5, amended: every appointment that create persists has as its duration the
  value supplied in the request, or 30 when the request supplies none; create does not
  validate the duration, so a zero or negative duration is stored as supplied.
\<close>

theorem create_stores_duration_as_supplied:
  assumes "appointments (snd (create e uid pid vet dt ty rsn nts dur d)) \<noteq> appointments d"
  shows "\<exists>a. appointments (snd (create e uid pid vet dt ty rsn nts dur d))
               = appointments d @ [(newId e, a)]
             \<and> duration a = (case dur of None \<Rightarrow> 30 | Some n \<Rightarrow> n)"
proof -
  obtain p v t y r where c: "create e uid pid vet dt ty rsn nts dur d
      = createChecked e uid p v t y r nts (case dur of None \<Rightarrow> 30 | Some n \<Rightarrow> n) d"
    using assms by (auto simp: create_def Let_def split: option.splits)
  show ?thesis
    using assms createChecked_appointments [of e uid p v t y r nts _ d] unfolding c by blast
qed

theorem create_stores_duration_as_supplied_witness:
  "appointments (snd (requestAt 1748772000000 None (clinicDb []))) \<noteq> appointments (clinicDb [])
   \<and> (\<exists>a. appointments (snd (requestAt 1748772000000 None (clinicDb [])))
            = appointments (clinicDb []) @ [(''a2'', a)] \<and> duration a = 30)"
  using create_stores_duration_as_supplied [of clinicEnv "''owner2''" "Some ''pet2''"
      "Some ''vetV''" "Some (Date 1748772000000)" "Some ''checkup''" "Some ''cough''" None None
      "clinicDb []"]
  by (simp add: scenario_defs create_defs)

section \<open>Reschedule\<close>

lemma hasConflict_conflictQuery:
  "hasConflict docId (conflictQuery docs vet startTime endTime)
     = (conflictQuery (filter (\<lambda>(i, a). i \<noteq> docId) docs) vet startTime endTime \<noteq> [])"
  by (induction docs) (auto simp: hasConflict_def conflictQuery_def)

text \<open>
  Claim C7, as stated: rescheduling an appointment X to its own current start time
  never raises the 409.

  It fails on the code when another booking of the veterinarian starts inside X's
  interval. Such a store is reached through create: next to the confirmed 10:00Z
  booking a1 the request at 10:15Z is accepted, and the move of a1 to its own 10:00Z is
  then answered 409.
\<close>

theorem reschedule_own_time_blocked_by_other:
  "bookings (snd (requestAt 1748772900000 (Some 30)
       (clinicDb [(''a1'', bookingAt 1748772000000 ''confirmed'')])))
     = [(''a1'', 1748772000000, 30, ''confirmed''), (''a2'', 1748772900000, 30, ''pending'')]
   \<and> fst (reschedule clinicEnv ''owner1'' ''a1'' (Some (Date 1748772000000)) None
            (snd (requestAt 1748772900000 (Some 30)
               (clinicDb [(''a1'', bookingAt 1748772000000 ''confirmed'')]))))
     = ErrorResp 409 ''TIME_CONFLICT''"
  by (simp add: scenario_defs create_defs reschedule_def hasConflict_def)

text \<open>
  Claim C7, amended: a reschedule of X to its own current start time that reaches the
  conflict check (X exists, the caller is its owner or veterinarian, the time is in the
  future) raises the 409 exactly when a pending or confirmed appointment of the same
  veterinarian other than X starts inside X's interval: the check leaves out the
  document with X's id, so X itself never blocks the move.
\<close>

theorem reschedule_own_time_conflict_iff_other_booking:
  assumes "map_of (appointments d) aid = Some a"
    and "\<not> readFails e"
    and "ownerId a = uid \<or> veterinarianId a = uid"
    and "now e < dateTime a"
  shows "(fst (reschedule e uid aid (Some (Date (dateTime a))) rsn d) = ErrorResp 409 ''TIME_CONFLICT'')
       = (conflictQuery (filter (\<lambda>(i, b). i \<noteq> aid) (appointments d)) (veterinarianId a)
            (dateTime a) (dateTime a + duration a * 60000) \<noteq> [])"
  using assms
  by (auto simp: reschedule_def Let_def hasConflict_conflictQuery)

theorem reschedule_own_time_conflict_iff_other_booking_witness:
  "conflictQuery (appointments (clinicDb [(''a1'', bookingAt 1748772000000 ''confirmed'')]))
       ''vetV'' 1748772000000 (1748772000000 + 30 * 60000)
     = [(''a1'', bookingAt 1748772000000 ''confirmed'')]
   \<and> fst (reschedule clinicEnv ''owner1'' ''a1'' (Some (Date 1748772000000)) None
            (clinicDb [(''a1'', bookingAt 1748772000000 ''confirmed'')]))
     \<noteq> ErrorResp 409 ''TIME_CONFLICT''"
  using reschedule_own_time_conflict_iff_other_booking
      [of "clinicDb [(''a1'', bookingAt 1748772000000 ''confirmed'')]" "''a1''"
          "bookingAt 1748772000000 ''confirmed''" clinicEnv "''owner1''" None]
  by (simp add: scenario_defs conflictQuery_def)

text \<open>
  Claim C9, as stated: a successful reschedule of a confirmed appointment sets status
  to pending, sets \<open>rescheduledAt\<close> and \<open>updatedAt\<close>, updates the start time and leaves
  every other field unchanged.

  It fails on the code for one field: the update also writes \<open>rescheduleReason\<close>, the
  trimmed reason of the request or null. An appointment that carries the reason of an
  earlier reschedule loses it when it is rescheduled without a reason.
\<close>

theorem reschedule_overwrites_rescheduleReason:
  "fst (reschedule clinicEnv ''owner1'' ''a1'' (Some (Date 1748773800000)) None
          (clinicDb [(''a1'', (bookingAt 1748772000000 ''confirmed'')
                                \<lparr>rescheduleReason := Some (Some ''vet on leave'')\<rparr>)]))
     = SuccessResp ''Appointment rescheduled successfully''
   \<and> map (\<lambda>(i, a). rescheduleReason a)
        (appointments (snd (reschedule clinicEnv ''owner1'' ''a1'' (Some (Date 1748773800000)) None
          (clinicDb [(''a1'', (bookingAt 1748772000000 ''confirmed'')
                                \<lparr>rescheduleReason := Some (Some ''vet on leave'')\<rparr>)]))))
     = [Some None]"
  by (simp add: scenario_defs reschedule_def rescheduleUpdate_def updateDoc_def conflictQuery_def
      hasConflict_def trimOrNull_def)

text \<open>
  Claim C9, amended: a successful reschedule sets \<open>dateTime\<close> to the new start, status to
  pending, \<open>rescheduledAt\<close> and \<open>updatedAt\<close> to the server time and \<open>rescheduleReason\<close> to
  the trimmed reason of the request (null when there is none), and leaves every other
  field unchanged; in particular \<open>duration\<close> is preserved and \<open>confirmedAt\<close> is not
  cleared.
\<close>

theorem reschedule_frame:
  assumes "map_of (appointments d) aid = Some a"
    and "reschedule e uid aid (Some (Date t)) rsn d = (SuccessResp msg, d')"
  shows "map_of (appointments d') aid
           = Some (a\<lparr>dateTime := t, status := ''pending'', rescheduledAt := Some (serverTime e),
                     rescheduleReason := Some (trimOrNull rsn), updatedAt := serverTime e\<rparr>)
       \<and> map_option duration (map_of (appointments d') aid) = Some (duration a)
       \<and> map_option confirmedAt (map_of (appointments d') aid) = Some (confirmedAt a)"
  using assms
  by (auto simp: reschedule_def Let_def rescheduleUpdate_def map_of_updateDoc
           split: option.splits if_splits jsDate.splits)

theorem reschedule_frame_witness:
  "map_of (appointments (snd (reschedule clinicEnv ''vetV'' ''a1'' (Some (Date 1748773800000))
       (Some '' surgery overran '')
       (clinicDb [(''a1'', (bookingAt 1748772000000 ''confirmed'')\<lparr>confirmedAt := Some 1748650000000\<rparr>)])))) ''a1''
   = Some ((bookingAt 1748773800000 ''pending'')
            \<lparr>updatedAt := 1748700000250, confirmedAt := Some 1748650000000,
              rescheduledAt := Some 1748700000250,
              rescheduleReason := Some (Some ''surgery overran'')\<rparr>)"
  using reschedule_frame [of "clinicDb [(''a1'', (bookingAt 1748772000000 ''confirmed'')\<lparr>confirmedAt := Some 1748650000000\<rparr>)]"
      "''a1''" "(bookingAt 1748772000000 ''confirmed'')\<lparr>confirmedAt := Some 1748650000000\<rparr>"
      clinicEnv "''vetV''" 1748773800000 "Some '' surgery overran ''"
      "''Appointment rescheduled successfully''"
      "snd (reschedule clinicEnv ''vetV'' ''a1'' (Some (Date 1748773800000))
       (Some '' surgery overran '')
       (clinicDb [(''a1'', (bookingAt 1748772000000 ''confirmed'')\<lparr>confirmedAt := Some 1748650000000\<rparr>)]))"]
  by (simp add: scenario_defs reschedule_def rescheduleUpdate_def updateDoc_def conflictQuery_def
      hasConflict_def trimOrNull_def trim_def isSpace_def)

section \<open>The slots of an availability response\<close>

declare availableSlots.simps [simp del]

lemma availableSlots_bounds:
  "list_all (\<lambda>s. time \<le> s \<and> s < workEnd \<and> nw < s) (availableSlots nw booked workEnd time)"
proof (induction nw booked workEnd time rule: availableSlots.induct)
  case (1 nw booked workEnd time)
  have mono: "list_all (\<lambda>s. time + 30 * 60000 \<le> s \<and> s < workEnd \<and> nw < s) xs
      \<Longrightarrow> list_all (\<lambda>s. time \<le> s \<and> s < workEnd \<and> nw < s) xs" for xs
    by (induction xs) auto
  show ?case
  proof (cases "time < workEnd")
    case False
    then show ?thesis by (simp add: availableSlots.simps [of nw booked workEnd time])
  next
    case True
    show ?thesis
    proof (cases "time \<le> nw")
      case past: True
      with True "1.IH"(1) show ?thesis
        by (simp add: availableSlots.simps [of nw booked workEnd time] mono)
    next
      case future: False
      show ?thesis
      proof (cases "isBooked booked time")
        case True
        with \<open>time < workEnd\<close> future "1.IH"(2) show ?thesis
          by (simp add: availableSlots.simps [of nw booked workEnd time] mono)
      next
        case False
        with \<open>time < workEnd\<close> future "1.IH"(3) show ?thesis
          by (simp add: availableSlots.simps [of nw booked workEnd time] mono)
      qed
    qed
  qed
qed

lemma availableSlots_ascending:
  "sorted_wrt (<) (availableSlots nw booked workEnd time)"
proof (induction nw booked workEnd time rule: availableSlots.induct)
  case (1 nw booked workEnd time)
  have later: "\<forall>s \<in> set (availableSlots nw booked workEnd (time + 30 * 60000)). time < s"
    using availableSlots_bounds [of "time + 30 * 60000" workEnd nw booked]
    by (auto simp: list_all_iff)
  show ?case
  proof (cases "time < workEnd")
    case False
    then show ?thesis by (simp add: availableSlots.simps [of nw booked workEnd time])
  next
    case True
    show ?thesis
    proof (cases "time \<le> nw")
      case past: True
      with True "1.IH"(1) show ?thesis
        by (simp add: availableSlots.simps [of nw booked workEnd time])
    next
      case future: False
      show ?thesis
      proof (cases "isBooked booked time")
        case True
        with \<open>time < workEnd\<close> future "1.IH"(2) show ?thesis
          by (simp add: availableSlots.simps [of nw booked workEnd time])
      next
        case False
        with \<open>time < workEnd\<close> future "1.IH"(3) later show ?thesis
          by (simp add: availableSlots.simps [of nw booked workEnd time])
      qed
    qed
  qed
qed

text \<open>
  Claim C8. Every slot of an availability response lies in the working hours of the
  requested date (09:00 inclusive to 17:00 exclusive) and after now, and the slots are
  in strictly ascending order; the empty list is a possible result (here: a day booked
  from 09:00 for eight hours).
\<close>

theorem availability_slots_in_hours_future_ascending:
  assumes "availability e vet (Some (Date requestedDate)) d = SlotsResp slots"
  shows "list_all (\<lambda>s. setHours (tzOffset e) requestedDate 9 0 0 0 \<le> s
                       \<and> s < setHours (tzOffset e) requestedDate 17 0 0 0 \<and> now e < s) slots
       \<and> sorted_wrt (<) slots
       \<and> availability clinicEnv ''vetV'' (Some (Date 1748736000000))
            (clinicDb [(''a1'', (bookingAt 1748768400000 ''confirmed'')\<lparr>duration := 480\<rparr>)])
          = SlotsResp []"
proof -
  have "slots = availableSlots (now e)
      (bookedSlots (appointments d) vet (setHours (tzOffset e) requestedDate 0 0 0 0)
         (setHours (tzOffset e) requestedDate 23 59 59 999))
      (setHours (tzOffset e) requestedDate 17 0 0 0) (setHours (tzOffset e) requestedDate 9 0 0 0)"
    using assms by (auto simp: availability_def Let_def split: if_splits option.splits)
  moreover have "availability clinicEnv ''vetV'' (Some (Date 1748736000000))
            (clinicDb [(''a1'', (bookingAt 1748768400000 ''confirmed'')\<lparr>duration := 480\<rparr>)])
          = SlotsResp []"
    by (simp add: scenario_defs availability_defs availableSlots.simps)
  ultimately show ?thesis
    using availableSlots_bounds availableSlots_ascending by simp
qed

theorem availability_slots_in_hours_future_ascending_witness:
  "availability clinicEnv ''vetV'' (Some (Date 1748736000000))
       (clinicDb [(''a1'', (bookingAt 1748770200000 ''confirmed'')\<lparr>duration := 420\<rparr>)])
     = SlotsResp [1748768400000, 1748795400000]
   \<and> list_all (\<lambda>s :: int. 1748768400000 \<le> s \<and> s < 1748797200000 \<and> 1748700000000 < s)
        [1748768400000, 1748795400000]
   \<and> sorted_wrt (<) [1748768400000, 1748795400000 :: int]"
  using availability_slots_in_hours_future_ascending [of clinicEnv "''vetV''" 1748736000000
      "clinicDb [(''a1'', (bookingAt 1748770200000 ''confirmed'')\<lparr>duration := 420\<rparr>)]"
      "[1748768400000, 1748795400000]"]
  by (simp add: scenario_defs availability_defs availableSlots.simps)

section \<open>Pagination of the listing\<close>

lemma length_orderByDateTime: "length (orderByDateTime asc docs) = length docs"
  by (simp add: orderByDateTime_def Let_def)

text \<open>
  Claim C10. In every response of the listing, \<open>hasMore\<close> is true exactly when the
  number of appointments returned equals the requested limit. So when the matching
  records end exactly at a page boundary, the last full page has \<open>hasMore\<close> true although
  the next page is empty.
\<close>

theorem hasMore_iff_full_page:
  assumes "getAppointments e uid st limit' offset' up d = ListResp items hasMore"
    and "queryInt 20 limit' = Num l"
    and "queryInt 0 offset' = Num k"
  shows "hasMore = (int (length items) = l)
       \<and> (0 < l \<and> int (length (listQuery e uid st up d)) = k + l
            \<longrightarrow> hasMore \<and> getAppointments e uid st limit' (Some (Num (k + l))) up d
                          = ListResp [] False)"
proof -
  from assms have ok: "\<not> readFails e" "0 \<le> l" "0 \<le> k"
    by (auto simp: getAppointments_def Let_def split: if_splits)
  from assms ok have items: "length items = length (take (nat l) (drop (nat k) (listQuery e uid st up d)))"
    and more: "hasMore = (int (length (take (nat l) (drop (nat k) (listQuery e uid st up d)))) = l)"
    by (auto simp: getAppointments_def Let_def)
  have first: "hasMore = (int (length items) = l)"
    using items more by simp
  have second: "hasMore \<and> getAppointments e uid st limit' (Some (Num (k + l))) up d = ListResp [] False"
    if "0 < l" and "int (length (listQuery e uid st up d)) = k + l"
  proof -
    have len: "length (listQuery e uid st up d) = nat k + nat l"
      using that ok by linarith
    have "hasMore" using more len ok by simp
    moreover have "drop (nat (k + l)) (listQuery e uid st up d) = []"
      using len ok by (simp add: nat_add_distrib)
    then have "getAppointments e uid st limit' (Some (Num (k + l))) up d = ListResp [] False"
      using assms(2) ok that(1) by (simp add: getAppointments_def queryInt_def Let_def)
    ultimately show ?thesis by simp
  qed
  show ?thesis using first second by blast
qed

theorem hasMore_iff_full_page_witness:
  "getAppointments clinicEnv ''vetV'' None (Some (Num 2)) None None
       (clinicDb [(''a1'', bookingAt 1748772000000 ''confirmed''),
                  (''a3'', bookingAt 1748773800000 ''pending'')])
     = ListResp
         [(''a3'', bookingAt 1748773800000 ''pending'',
           Some \<lparr>petOwnerId = ''owner1'', petName = ''Rex''\<rparr>,
           Some \<lparr>role = ''veterinarian'', vetApplicationStatus = ''approved'',
                 firstName = ''Vera'', lastName = ''Vet''\<rparr>),
          (''a1'', bookingAt 1748772000000 ''confirmed'',
           Some \<lparr>petOwnerId = ''owner1'', petName = ''Rex''\<rparr>,
           Some \<lparr>role = ''veterinarian'', vetApplicationStatus = ''approved'',
                 firstName = ''Vera'', lastName = ''Vet''\<rparr>)]
         True
   \<and> getAppointments clinicEnv ''vetV'' None (Some (Num 2)) (Some (Num 2)) None
       (clinicDb [(''a1'', bookingAt 1748772000000 ''confirmed''),
                  (''a3'', bookingAt 1748773800000 ''pending'')])
     = ListResp [] False"
proof -
  have page: "getAppointments clinicEnv ''vetV'' None (Some (Num 2)) None None
       (clinicDb [(''a1'', bookingAt 1748772000000 ''confirmed''),
                  (''a3'', bookingAt 1748773800000 ''pending'')])
     = ListResp
         [(''a3'', bookingAt 1748773800000 ''pending'',
           Some \<lparr>petOwnerId = ''owner1'', petName = ''Rex''\<rparr>,
           Some \<lparr>role = ''veterinarian'', vetApplicationStatus = ''approved'',
                 firstName = ''Vera'', lastName = ''Vet''\<rparr>),
          (''a1'', bookingAt 1748772000000 ''confirmed'',
           Some \<lparr>petOwnerId = ''owner1'', petName = ''Rex''\<rparr>,
           Some \<lparr>role = ''veterinarian'', vetApplicationStatus = ''approved'',
                 firstName = ''Vera'', lastName = ''Vet''\<rparr>)]
         True"
    by (simp add: scenario_defs getAppointments_def queryInt_def listQuery_def
        orderByDateTime_def)
  have len: "int (length (listQuery clinicEnv ''vetV'' None None
       (clinicDb [(''a1'', bookingAt 1748772000000 ''confirmed''),
                  (''a3'', bookingAt 1748773800000 ''pending'')]))) = 0 + 2"
    by (simp add: scenario_defs listQuery_def length_orderByDateTime)
  show ?thesis
    using hasMore_iff_full_page [OF page, of 2 0] len page
    by (simp add: queryInt_def)
qed

end
